theory Spec2Isabelle
  imports Main "HOL-Library.Word"
begin

section \<open>Errors\<close>

text \<open>
  Every Python exception the modelled code can raise is a value. A function that can
  raise returns \<open>error + 'a\<close>, with \<open>Inl\<close> for the exception. The state a raising
  call leaves behind is not modelled: the exception ends the run.
\<close>

datatype error =
  AssertionError | IndexError | ValueError | KeyError | ZeroDivisionError | OverflowError

section \<open>The hashing primitives\<close>

text \<open>
  \<open>xxhash\<close> and \<open>numpy\<close> are libraries outside the repository. The digest
  \<open>xxh64().update(bs).intdigest()\<close> and the serialisation \<open>np.array(xs).tobytes()\<close>
  are parameters of the model; \<open>intdigest\<close> is an unsigned 64-bit value, hence the type.
  Successive \<open>update\<close> calls feed the concatenation of their arguments.
\<close>

record hash_lib =
  xxh64_intdigest :: "8 word list \<Rightarrow> 64 word"
  np_tobytes :: "int list \<Rightarrow> 8 word list"

text \<open>\<open>prefix.to_bytes(8, "little")\<close> for \<open>0 \<le> prefix < 2 ^ 64\<close>.\<close>

definition to_bytes_8_little :: "int \<Rightarrow> 8 word list" where
  "to_bytes_8_little p = map (\<lambda>i. word_of_int (p div 2 ^ (8 * i))) [0..<8]"

text \<open>
  \<open>BlockManager.compute_hash\<close>. \<open>to_bytes\<close> raises \<open>OverflowError\<close> on a negative
  prefix other than the sentinel and on one that does not fit 8 bytes.
\<close>

definition compute_hash :: "hash_lib \<Rightarrow> int list \<Rightarrow> int \<Rightarrow> error + int" where
  "compute_hash L token_ids prefix =
     (if prefix \<noteq> -1 then
        (if prefix < 0 \<or> 2 ^ 64 \<le> prefix then Inl OverflowError
         else Inr (uint (xxh64_intdigest L (to_bytes_8_little prefix @ np_tobytes L token_ids))))
      else Inr (uint (xxh64_intdigest L (np_tobytes L token_ids))))"

section \<open>Block\<close>

text \<open>
  \<open>block_token_ids\<close> is the attribute \<open>Block.token_ids\<close> (the name \<open>token_ids\<close> is taken
  by the sequence's attribute). The sentinel hash is \<open>-1\<close>, as in the source.
\<close>

record block =
  block_id :: nat
  ref_count :: int
  hash :: int
  block_token_ids :: "int list"

definition Block_init :: "nat \<Rightarrow> block" where
  "Block_init i = \<lparr>block_id = i, ref_count = 0, hash = -1, block_token_ids = []\<rparr>"

definition Block_update :: "block \<Rightarrow> int \<Rightarrow> int list \<Rightarrow> block" where
  "Block_update b h toks = b\<lparr>hash := h, block_token_ids := toks\<rparr>"

definition Block_reset :: "block \<Rightarrow> block" where
  "Block_reset b = b\<lparr>ref_count := 1, hash := -1, block_token_ids := []\<rparr>"

section \<open>Sequence\<close>

datatype SequenceStatus = WAITING | RUNNING | FINISHED

text \<open>
  \<open>seq_block_size\<close> is the class attribute \<open>Sequence.block_size\<close>, read through
  \<open>self\<close>; the source binds it to 256 and the constructor below takes its current value.
  The three sampling parameters copied by the constructor are read by no modelled
  function and are left out.
\<close>

record sequence =
  seq_block_size :: nat
  seq_id :: nat
  status :: SequenceStatus
  token_ids :: "int list"
  last_token :: int
  num_tokens :: nat
  num_prompt_tokens :: nat
  num_cached_tokens :: nat
  block_table :: "nat list"

definition Sequence_block_size :: nat where
  "Sequence_block_size = 256"

text \<open>
  \<open>Sequence.__init__\<close>: \<open>sid\<close> is the value drawn from \<open>Sequence.counter\<close>.
  \<open>token_ids[-1]\<close> raises \<open>IndexError\<close> on the empty list.
\<close>

definition Sequence_init :: "nat \<Rightarrow> nat \<Rightarrow> int list \<Rightarrow> error + sequence" where
  "Sequence_init cls_block_size sid toks =
     (if toks = [] then Inl IndexError
      else Inr \<lparr>seq_block_size = cls_block_size, seq_id = sid, status = WAITING,
                token_ids = toks, last_token = last toks,
                num_tokens = length toks, num_prompt_tokens = length toks,
                num_cached_tokens = 0, block_table = []\<rparr>)"

definition len :: "sequence \<Rightarrow> nat" where
  "len s = num_tokens s"

definition num_completion_tokens :: "sequence \<Rightarrow> int" where
  "num_completion_tokens s = int (num_tokens s) - int (num_prompt_tokens s)"

definition num_blocks :: "sequence \<Rightarrow> error + nat" where
  "num_blocks s =
     (if seq_block_size s = 0 then Inl ZeroDivisionError
      else Inr ((num_tokens s + seq_block_size s - 1) div seq_block_size s))"

text \<open>\<open>Sequence.block\<close>: the index is a natural number, so only the upper bound is asserted.\<close>

definition block :: "sequence \<Rightarrow> nat \<Rightarrow> error + int list" where
  "block s i =
     (case num_blocks s of
        Inl e \<Rightarrow> Inl e
      | Inr n \<Rightarrow>
          if i < n then Inr (take (seq_block_size s) (drop (i * seq_block_size s) (token_ids s)))
          else Inl AssertionError)"

definition append_token :: "sequence \<Rightarrow> int \<Rightarrow> sequence" where
  "append_token s token_id =
     s\<lparr>token_ids := token_ids s @ [token_id], last_token := token_id,
       num_tokens := num_tokens s + 1\<rparr>"

subsection \<open>Serialisation\<close>

text \<open>
  The last component of the pickled tuple is a list of tokens or one token. A payload
  whose tail has the kind the counts do not announce is never produced by
  \<open>getstate\<close>; Python would store it in the attribute all the same, which a typed
  record cannot, so \<open>setstate\<close> returns \<open>None\<close> there.
\<close>

datatype tail = Tokens "int list" | Token int

type_synonym payload = "nat \<times> nat \<times> nat \<times> nat list \<times> tail"

definition getstate :: "sequence \<Rightarrow> payload" where
  "getstate s =
     (num_tokens s, num_prompt_tokens s, num_cached_tokens s, block_table s,
      if num_completion_tokens s = 0 then Tokens (token_ids s) else Token (last_token s))"

fun setstate :: "sequence \<Rightarrow> payload \<Rightarrow> sequence option" where
  "setstate s (nt, npt, nct, bt, tail_v) =
     (let s1 = s\<lparr>num_tokens := nt, num_prompt_tokens := npt,
                 num_cached_tokens := nct, block_table := bt\<rparr>
      in if num_completion_tokens s1 = 0 then
           (case tail_v of Tokens toks \<Rightarrow> Some (s1\<lparr>token_ids := toks\<rparr>) | Token _ \<Rightarrow> None)
         else
           (case tail_v of Token t \<Rightarrow> Some (s1\<lparr>last_token := t\<rparr>) | Tokens _ \<Rightarrow> None))"

section \<open>BlockManager\<close>

text \<open>
  \<open>hash_to_block_id.get(h, -1)\<close> is the map lookup, \<open>None\<close> standing for \<open>-1\<close>. The
  deque \<open>free_block_ids\<close> is a list with its front at the head.
\<close>

record block_manager =
  block_size :: nat
  blocks :: "block list"
  hash_to_block_id :: "int \<rightharpoonup> nat"
  free_block_ids :: "nat list"
  used_block_ids :: "nat set"

definition BlockManager_init :: "nat \<Rightarrow> nat \<Rightarrow> block_manager" where
  "BlockManager_init n bs =
     \<lparr>block_size = bs, blocks = map Block_init [0..<n], hash_to_block_id = Map.empty,
      free_block_ids = [0..<n], used_block_ids = {}\<rparr>"

text \<open>
  \<open>_allocate_block\<close>: \<open>deque.remove\<close> deletes the first occurrence and raises
  \<open>ValueError\<close> when there is none. The caller reads the block back at \<open>block_id\<close>.
\<close>

definition allocate_block :: "block_manager \<Rightarrow> nat \<Rightarrow> error + block_manager" where
  "allocate_block bm b =
     (if length (blocks bm) \<le> b then Inl IndexError
      else if ref_count (blocks bm ! b) \<noteq> 0 then Inl AssertionError
      else if b \<notin> set (free_block_ids bm) then Inl ValueError
      else Inr (bm\<lparr>blocks := (blocks bm)[b := Block_reset (blocks bm ! b)],
                   free_block_ids := remove1 b (free_block_ids bm),
                   used_block_ids := insert b (used_block_ids bm)\<rparr>))"

text \<open>\<open>_deallocate_block\<close>: \<open>set.remove\<close> raises \<open>KeyError\<close> on a missing element.\<close>

definition deallocate_block :: "block_manager \<Rightarrow> nat \<Rightarrow> error + block_manager" where
  "deallocate_block bm b =
     (if length (blocks bm) \<le> b then Inl IndexError
      else if ref_count (blocks bm ! b) \<noteq> 0 then Inl AssertionError
      else if b \<notin> used_block_ids bm then Inl KeyError
      else Inr (bm\<lparr>used_block_ids := used_block_ids bm - {b},
                   free_block_ids := free_block_ids bm @ [b]\<rparr>))"

definition can_allocate :: "block_manager \<Rightarrow> sequence \<Rightarrow> error + bool" where
  "can_allocate bm seq =
     (case num_blocks seq of
        Inl e \<Rightarrow> Inl e
      | Inr n \<Rightarrow> Inr (n \<le> length (free_block_ids bm)))"

subsection \<open>allocate\<close>

text \<open>
  The state of the loop of \<open>allocate\<close>: the manager, the sequence, the running chained
  hash \<open>h\<close> and the flag \<open>cache_miss\<close>.
\<close>

type_synonym alloc_state = "block_manager \<times> sequence \<times> int \<times> bool"

text \<open>
  The last two statements of the loop body: finalise the chosen block when the logical
  block has a hash, and append the chosen id to the block table.
\<close>

definition allocate_finish ::
  "block_manager \<Rightarrow> sequence \<Rightarrow> int \<Rightarrow> bool \<Rightarrow> int list \<Rightarrow> nat \<Rightarrow> alloc_state" where
  "allocate_finish bm seq h cache_miss toks b =
     ((if h \<noteq> -1 then
         bm\<lparr>blocks := (blocks bm)[b := Block_update (blocks bm ! b) h toks],
            hash_to_block_id := (hash_to_block_id bm)(h \<mapsto> b)\<rparr>
       else bm),
      seq\<lparr>block_table := block_table seq @ [b]\<rparr>, h, cache_miss)"

text \<open>
  The branch \<open>if cache_miss\<close>: the front of the free list is taken; reading it raises
  \<open>IndexError\<close> on an empty deque.
\<close>

definition allocate_miss ::
  "block_manager \<Rightarrow> sequence \<Rightarrow> int \<Rightarrow> int list \<Rightarrow> error + alloc_state" where
  "allocate_miss bm seq h toks =
     (case free_block_ids bm of
        [] \<Rightarrow> Inl IndexError
      | b # _ \<Rightarrow>
          (case allocate_block bm b of
             Inl e \<Rightarrow> Inl e
           | Inr bm1 \<Rightarrow> Inr (allocate_finish bm1 seq h True toks b)))"

text \<open>The \<open>else\<close> branch, for the candidate \<open>c\<close> found in the hash index.\<close>

definition allocate_hit ::
  "block_manager \<Rightarrow> sequence \<Rightarrow> int \<Rightarrow> int list \<Rightarrow> nat \<Rightarrow> error + alloc_state" where
  "allocate_hit bm seq h toks c =
     (let seq1 = seq\<lparr>num_cached_tokens := num_cached_tokens seq + block_size bm\<rparr>
      in if c \<in> used_block_ids bm then
           Inr (allocate_finish
                 (bm\<lparr>blocks := (blocks bm)[c := (blocks bm ! c)
                                  \<lparr>ref_count := ref_count (blocks bm ! c) + 1\<rparr>]\<rparr>)
                 seq1 h False toks c)
         else
           (case allocate_block bm c of
              Inl e \<Rightarrow> Inl e
            | Inr bm1 \<Rightarrow> Inr (allocate_finish bm1 seq1 h False toks c)))"

text \<open>
  One iteration of the loop, for the logical block \<open>i\<close>. The test
  \<open>block_id == -1 or self.blocks[block_id].token_ids != token_ids\<close> is evaluated
  whatever the flag is, and reads the candidate block.
\<close>

definition allocate_step :: "hash_lib \<Rightarrow> alloc_state \<Rightarrow> nat \<Rightarrow> error + alloc_state" where
  "allocate_step L st i =
     (case st of (bm, seq, h0, cache_miss0) \<Rightarrow>
      case block seq i of
        Inl e \<Rightarrow> Inl e
      | Inr toks \<Rightarrow>
      case (if length toks = block_size bm then compute_hash L toks h0 else Inr (-1)) of
        Inl e \<Rightarrow> Inl e
      | Inr h \<Rightarrow>
          (case hash_to_block_id bm h of
             None \<Rightarrow> allocate_miss bm seq h toks
           | Some c \<Rightarrow>
               if length (blocks bm) \<le> c then Inl IndexError
               else if cache_miss0 \<or> block_token_ids (blocks bm ! c) \<noteq> toks
               then allocate_miss bm seq h toks
               else allocate_hit bm seq h toks c))"

fun allocate_loop :: "hash_lib \<Rightarrow> alloc_state \<Rightarrow> nat list \<Rightarrow> error + alloc_state" where
  "allocate_loop L st [] = Inr st"
| "allocate_loop L st (i # is) =
     (case allocate_step L st i of
        Inl e \<Rightarrow> Inl e
      | Inr st' \<Rightarrow> allocate_loop L st' is)"

definition allocate ::
  "hash_lib \<Rightarrow> block_manager \<Rightarrow> sequence \<Rightarrow> error + block_manager \<times> sequence" where
  "allocate L bm seq =
     (if block_table seq \<noteq> [] then Inl AssertionError
      else
        (case num_blocks seq of
           Inl e \<Rightarrow> Inl e
         | Inr n \<Rightarrow>
             (case allocate_loop L (bm, seq, -1, False) [0..<n] of
                Inl e \<Rightarrow> Inl e
              | Inr (bm', seq', h, cache_miss) \<Rightarrow> Inr (bm', seq'))))"

subsection \<open>deallocate\<close>

fun deallocate_loop :: "block_manager \<Rightarrow> nat list \<Rightarrow> error + block_manager" where
  "deallocate_loop bm [] = Inr bm"
| "deallocate_loop bm (b # bs) =
     (if length (blocks bm) \<le> b then Inl IndexError
      else
        (let bm1 = bm\<lparr>blocks := (blocks bm)[b := (blocks bm ! b)
                                     \<lparr>ref_count := ref_count (blocks bm ! b) - 1\<rparr>]\<rparr>
         in if ref_count (blocks bm1 ! b) = 0 then
              (case deallocate_block bm1 b of
                 Inl e \<Rightarrow> Inl e
               | Inr bm2 \<Rightarrow> deallocate_loop bm2 bs)
            else deallocate_loop bm1 bs))"

definition deallocate :: "block_manager \<Rightarrow> sequence \<Rightarrow> error + block_manager \<times> sequence" where
  "deallocate bm seq =
     (case deallocate_loop bm (rev (block_table seq)) of
        Inl e \<Rightarrow> Inl e
      | Inr bm' \<Rightarrow> Inr (bm', seq\<lparr>num_cached_tokens := 0, block_table := []\<rparr>))"

subsection \<open>can_append and may_append\<close>

text \<open>
  \<open>len(free) >= (len(seq) % block_size == 1)\<close> compares a length with a Boolean, which
  Python reads as 1 or 0. The modulus raises \<open>ZeroDivisionError\<close> for block size 0.
\<close>

definition can_append :: "block_manager \<Rightarrow> sequence \<Rightarrow> error + bool" where
  "can_append bm seq =
     (if block_size bm = 0 then Inl ZeroDivisionError
      else Inr ((if len seq mod block_size bm = 1 then 1 else 0) \<le> length (free_block_ids bm)))"

text \<open>
  \<open>may_append\<close>. In the branch that finalises the last block, \<open>seq.block(seq.num_blocks-1)\<close>
  is called with index \<open>-1\<close> when the sequence has no block, and the assertion of
  \<open>block\<close> fails.
\<close>

definition may_append ::
  "hash_lib \<Rightarrow> block_manager \<Rightarrow> sequence \<Rightarrow> error + block_manager \<times> sequence" where
  "may_append L bm seq =
     (if block_table seq = [] then Inl IndexError
      else if length (blocks bm) \<le> last (block_table seq) then Inl IndexError
      else if block_size bm = 0 then Inl ZeroDivisionError
      else
        (let lb = last (block_table seq); last_block = blocks bm ! lb in
         if len seq mod block_size bm = 1 then
           (if hash last_block = -1 then Inl AssertionError
            else
              (case free_block_ids bm of
                 [] \<Rightarrow> Inl IndexError
               | b # _ \<Rightarrow>
                   (case allocate_block bm b of
                      Inl e \<Rightarrow> Inl e
                    | Inr bm1 \<Rightarrow> Inr (bm1, seq\<lparr>block_table := block_table seq @ [b]\<rparr>))))
         else if len seq mod block_size bm = 0 then
           (if hash last_block \<noteq> -1 then Inl AssertionError
            else
              (case num_blocks seq of
                 Inl e \<Rightarrow> Inl e
               | Inr n \<Rightarrow>
                   if n = 0 then Inl AssertionError
                   else
                     (case block seq (n - 1) of
                        Inl e \<Rightarrow> Inl e
                      | Inr toks \<Rightarrow>
                          if 1 < length (block_table seq)
                             \<and> length (blocks bm) \<le> last (butlast (block_table seq))
                          then Inl IndexError
                          else
                            (case compute_hash L toks
                                    (if 1 < length (block_table seq)
                                     then hash (blocks bm ! last (butlast (block_table seq)))
                                     else -1) of
                               Inl e \<Rightarrow> Inl e
                             | Inr h \<Rightarrow>
                                 Inr (bm\<lparr>blocks := (blocks bm)[lb := Block_update last_block h toks],
                                         hash_to_block_id :=
                                           (hash_to_block_id bm)(h \<mapsto> block_id last_block)\<rparr>,
                                      seq)))))
         else
           (if hash last_block \<noteq> -1 then Inl AssertionError else Inr (bm, seq))))"

section \<open>Runs of the allocator\<close>

text \<open>
  The scheduler owns the manager and the sequences it has constructed; a call names a
  sequence by its position. New sequences are constructed with the class attribute equal
  to the manager's block size. A call that raises ends the run.
\<close>

record system =
  manager :: block_manager
  seqs :: "sequence list"

datatype call =
  NewSequence "int list"
  | AppendToken nat int
  | Allocate nat
  | MayAppend nat
  | Deallocate nat

definition System_init :: "nat \<Rightarrow> nat \<Rightarrow> system" where
  "System_init n bs = \<lparr>manager = BlockManager_init n bs, seqs = []\<rparr>"

fun exec_call :: "hash_lib \<Rightarrow> system \<Rightarrow> call \<Rightarrow> error + system" where
  "exec_call L S (NewSequence toks) =
     (case Sequence_init (block_size (manager S)) (length (seqs S)) toks of
        Inl e \<Rightarrow> Inl e
      | Inr s \<Rightarrow> Inr (S\<lparr>seqs := seqs S @ [s]\<rparr>))"
| "exec_call L S (AppendToken i t) =
     (if length (seqs S) \<le> i then Inl IndexError
      else Inr (S\<lparr>seqs := (seqs S)[i := append_token (seqs S ! i) t]\<rparr>))"
| "exec_call L S (Allocate i) =
     (if length (seqs S) \<le> i then Inl IndexError
      else
        (case allocate L (manager S) (seqs S ! i) of
           Inl e \<Rightarrow> Inl e
         | Inr (bm, s) \<Rightarrow> Inr (S\<lparr>manager := bm, seqs := (seqs S)[i := s]\<rparr>)))"
| "exec_call L S (MayAppend i) =
     (if length (seqs S) \<le> i then Inl IndexError
      else
        (case may_append L (manager S) (seqs S ! i) of
           Inl e \<Rightarrow> Inl e
         | Inr (bm, s) \<Rightarrow> Inr (S\<lparr>manager := bm, seqs := (seqs S)[i := s]\<rparr>)))"
| "exec_call L S (Deallocate i) =
     (if length (seqs S) \<le> i then Inl IndexError
      else
        (case deallocate (manager S) (seqs S ! i) of
           Inl e \<Rightarrow> Inl e
         | Inr (bm, s) \<Rightarrow> Inr (S\<lparr>manager := bm, seqs := (seqs S)[i := s]\<rparr>)))"

fun run :: "hash_lib \<Rightarrow> system \<Rightarrow> call list \<Rightarrow> error + system" where
  "run L S [] = Inr S"
| "run L S (c # cs) =
     (case exec_call L S c of
        Inl e \<Rightarrow> Inl e
      | Inr S' \<Rightarrow> run L S' cs)"

section \<open>Transfer of a sequence between processes\<close>

text \<open>
  The receiving side of the serialisation contract: it reconstructs its copy with
  \<open>setstate\<close> and, when the payload carries one token, appends that token to the token
  list it already holds. \<open>transfer s r ts\<close> lets the sender \<open>s\<close> generate the tokens
  \<open>ts\<close> one at a time, sending its state to the receiver \<open>r\<close> after each.
\<close>

definition payload_tail :: "payload \<Rightarrow> tail" where
  "payload_tail p = (case p of (nt, npt, nct, bt, t) \<Rightarrow> t)"

definition receiver_step :: "sequence \<Rightarrow> payload \<Rightarrow> sequence option" where
  "receiver_step r p =
     (case setstate r p of
        None \<Rightarrow> None
      | Some r' \<Rightarrow>
          (case payload_tail p of
             Tokens _ \<Rightarrow> Some r'
           | Token _ \<Rightarrow> Some (r'\<lparr>token_ids := token_ids r' @ [last_token r']\<rparr>)))"

fun transfer :: "sequence \<Rightarrow> sequence \<Rightarrow> int list \<Rightarrow> sequence option" where
  "transfer s r [] = Some r"
| "transfer s r (t # ts) =
     (case receiver_step r (getstate (append_token s t)) of
        None \<Rightarrow> None
      | Some r' \<Rightarrow> transfer (append_token s t) r' ts)"

section \<open>Concrete instances\<close>

text \<open>
  A small stand-in for the two library functions, used where a statement is evaluated
  on concrete data: one byte per token and a polynomial digest.
\<close>

definition example_lib :: hash_lib where
  "example_lib =
     \<lparr>xxh64_intdigest = (\<lambda>bs. fold (\<lambda>b acc. 31 * acc + ucast b + 7) bs 0),
      np_tobytes = map word_of_int\<rparr>"

text \<open>A sequence of three prompt tokens that holds one block.\<close>

definition example_seq :: sequence where
  "example_seq =
     \<lparr>seq_block_size = 4, seq_id = 0, status = WAITING, token_ids = [1, 2, 3],
      last_token = 3, num_tokens = 3, num_prompt_tokens = 3, num_cached_tokens = 0,
      block_table = [0]\<rparr>"

text \<open>
  The manager and the sequence after \<open>[1, 2, 3, 4]\<close> was allocated in a pool of two
  blocks of size 4 and the token 5 was appended.
\<close>

definition example_manager :: block_manager where
  "example_manager =
     \<lparr>block_size = 4,
      blocks = [\<lparr>block_id = 0, ref_count = 1, hash = 247298, block_token_ids = [1, 2, 3, 4]\<rparr>,
                \<lparr>block_id = 1, ref_count = 0, hash = -1, block_token_ids = []\<rparr>],
      hash_to_block_id = [247298 \<mapsto> 0], free_block_ids = [1], used_block_ids = {0}\<rparr>"

definition example_seq5 :: sequence where
  "example_seq5 =
     \<lparr>seq_block_size = 4, seq_id = 0, status = WAITING, token_ids = [1, 2, 3, 4, 5],
      last_token = 5, num_tokens = 5, num_prompt_tokens = 4, num_cached_tokens = 0,
      block_table = [0]\<rparr>"

section \<open>Sequences and their serialisation\<close>

lemma num_tokens_foldl_append_token:
  "num_tokens (foldl append_token s ts) = num_tokens s + length ts"
  by (induction ts arbitrary: s) (simp_all add: append_token_def)

lemma num_prompt_tokens_foldl_append_token:
  "num_prompt_tokens (foldl append_token s ts) = num_prompt_tokens s"
  by (induction ts arbitrary: s) (simp_all add: append_token_def)

lemma token_ids_foldl_append_token:
  "token_ids (foldl append_token s ts) = token_ids s @ ts"
  by (induction ts arbitrary: s) (simp_all add: append_token_def)

lemma setstate_getstate_prompt:
  "num_completion_tokens s = 0 \<Longrightarrow>
   setstate r (getstate s) =
     Some (r\<lparr>num_tokens := num_tokens s, num_prompt_tokens := num_prompt_tokens s,
             num_cached_tokens := num_cached_tokens s, block_table := block_table s,
             token_ids := token_ids s\<rparr>)"
  by (simp add: getstate_def num_completion_tokens_def)

lemma receiver_step_getstate_decode:
  "num_completion_tokens s \<noteq> 0 \<Longrightarrow>
   receiver_step r (getstate s) =
     Some (r\<lparr>num_tokens := num_tokens s, num_prompt_tokens := num_prompt_tokens s,
             num_cached_tokens := num_cached_tokens s, block_table := block_table s,
             last_token := last_token s, token_ids := token_ids r @ [last_token s]\<rparr>)"
  by (simp add: receiver_step_def getstate_def num_completion_tokens_def payload_tail_def)

lemma transfer_token_ids:
  "num_prompt_tokens s \<le> num_tokens s \<Longrightarrow>
   map_option token_ids (transfer s r ts) = Some (token_ids r @ ts)"
proof (induction ts arbitrary: s r)
  case Nil
  then show ?case by simp
next
  case (Cons t ts)
  let ?s = "append_token s t"
  have nz: "num_completion_tokens ?s \<noteq> 0"
    using Cons.prems by (simp add: num_completion_tokens_def append_token_def)
  have le: "num_prompt_tokens ?s \<le> num_tokens ?s"
    using Cons.prems by (simp add: append_token_def)
  have "transfer s r (t # ts) =
          transfer ?s (r\<lparr>num_tokens := num_tokens ?s, num_prompt_tokens := num_prompt_tokens ?s,
             num_cached_tokens := num_cached_tokens ?s, block_table := block_table ?s,
             last_token := last_token ?s, token_ids := token_ids r @ [last_token ?s]\<rparr>) ts"
    by (simp only: transfer.simps receiver_step_getstate_decode [OF nz] option.case)
  moreover have "last_token ?s = t"
    by (simp add: append_token_def)
  ultimately show ?case
    by (simp only: Cons.IH [OF le]) simp
qed

lemma decode_payload_tail:
  assumes "num_prompt_tokens s \<le> num_tokens s" and "i < length ts"
  shows "payload_tail (getstate (foldl append_token s (take (Suc i) ts))) = Token (ts ! i)"
proof -
  have t: "take (Suc i) ts = take i ts @ [ts ! i]"
    using assms(2) by (simp add: take_Suc_conv_app_nth)
  show ?thesis
    using assms(1)
    by (simp add: t getstate_def payload_tail_def num_completion_tokens_def
        num_tokens_foldl_append_token num_prompt_tokens_foldl_append_token append_token_def)
qed

text \<open>
  Claim C6. For a sequence with no completion token, \<open>setstate\<close> applied to the payload
  of \<open>getstate\<close> gives a sequence with the same token list. When the sender then
  generates the tokens \<open>ts\<close>, a receiver seeded with that first payload and given one
  payload per generated token, appending each transferred last token, ends with the
  sender's token list, and the payload of step \<open>i\<close> carries the single token \<open>ts ! i\<close>.
\<close>

theorem serialization_round_trip:
  assumes "num_completion_tokens s = 0"
  shows "map_option token_ids (setstate r (getstate s)) = Some (token_ids s)
       \<and> (\<forall>r1. setstate r (getstate s) = Some r1 \<longrightarrow>
            map_option token_ids (transfer s r1 ts) = Some (token_ids (foldl append_token s ts)))
       \<and> (\<forall>i<length ts.
            payload_tail (getstate (foldl append_token s (take (Suc i) ts))) = Token (ts ! i))"
proof -
  have le: "num_prompt_tokens s \<le> num_tokens s"
    using assms by (simp add: num_completion_tokens_def)
  have a: "map_option token_ids (setstate r (getstate s)) = Some (token_ids s)"
    by (simp add: setstate_getstate_prompt [OF assms])
  have b: "map_option token_ids (transfer s r1 ts) = Some (token_ids (foldl append_token s ts))"
    if "setstate r (getstate s) = Some r1" for r1
  proof -
    have "token_ids r1 = token_ids s"
      using that by (simp add: setstate_getstate_prompt [OF assms]) auto 
    then show ?thesis
      by (simp add: transfer_token_ids [OF le] token_ids_foldl_append_token)
  qed
  show ?thesis
    using a b decode_payload_tail [OF le] by blast
qed

theorem serialization_round_trip_witness:
  "num_completion_tokens example_seq = 0
   \<and> map_option token_ids (setstate example_seq (getstate example_seq)) = Some [1, 2, 3]
   \<and> map_option token_ids (transfer example_seq example_seq [7, 8]) = Some [1, 2, 3, 7, 8]
   \<and> payload_tail (getstate (foldl append_token example_seq (take (Suc 1) [7, 8]))) = Token 8"
proof -
  have h: "num_completion_tokens example_seq = 0"
    by (simp add: num_completion_tokens_def example_seq_def)
  have s: "setstate example_seq (getstate example_seq) = Some example_seq"
    by (simp add: getstate_def num_completion_tokens_def example_seq_def)
  have t: "token_ids example_seq = [1, 2, 3]"
    by (simp add: example_seq_def)
  have l: "(1::nat) < length [7, 8 :: int]"
    by simp
  from serialization_round_trip [OF h, of example_seq "[7, 8]"]
  have "map_option token_ids (setstate example_seq (getstate example_seq)) = Some (token_ids example_seq)"
    and "map_option token_ids (transfer example_seq example_seq [7, 8])
           = Some (token_ids (foldl append_token example_seq [7, 8]))"
    and "payload_tail (getstate (foldl append_token example_seq (take (Suc 1) [7, 8]))) = Token ([7, 8] ! 1)"
    using s l by blast+
  moreover have "token_ids (foldl append_token example_seq [7, 8]) = [1, 2, 3, 7, 8]"
    by (simp only: token_ids_foldl_append_token t append.simps)
  moreover have "[7, 8 :: int] ! 1 = 8"
    by simp
  ultimately show ?thesis
    using h by (simp only: t)
qed

text \<open>
  Claim C10. The constructor raises \<open>IndexError\<close> exactly on the empty token list; a
  constructed sequence has at least one token, and its \<open>last_token\<close> is the last
  element of the input list.
\<close>

theorem Sequence_init_nonempty:
  "(Sequence_init c sid toks = Inl IndexError \<longleftrightarrow> toks = [])
   \<and> (\<forall>s. Sequence_init c sid toks = Inr s \<longrightarrow>
          toks \<noteq> [] \<and> token_ids s = toks \<and> 0 < num_tokens s
          \<and> num_tokens s = length (token_ids s) \<and> last_token s = last toks)"
  by (auto simp: Sequence_init_def)

theorem Sequence_init_nonempty_witness:
  "Sequence_init Sequence_block_size 0 [] = Inl IndexError
   \<and> isl (Sequence_init Sequence_block_size 0 [5, 6]) = False
   \<and> last_token (projr (Sequence_init Sequence_block_size 0 [5, 6])) = 6"
  using Sequence_init_nonempty [of Sequence_block_size 0 "[]"]
    Sequence_init_nonempty [of Sequence_block_size 0 "[5, 6]"]
  by (simp add: Sequence_init_def)


lemma allocate_block_free_length:
  "allocate_block bm b = Inr bm' \<Longrightarrow>
   Suc (length (free_block_ids bm')) = length (free_block_ids bm)"
  by (auto simp: allocate_block_def length_remove1 split: if_splits) (metis length_pos_if_in_set Suc_pred)

text \<open>
  Claim C8. \<open>can_append\<close> returns true exactly when the token count modulo the block
  size is not 1 or the free list is not empty (for block size 0 the modulus raises). A
  successful \<open>may_append\<close> takes a block from the free list exactly when that modulus
  is 1.
\<close>

theorem can_append_iff:
  "((can_append bm seq = Inr True) \<longleftrightarrow>
      (block_size bm \<noteq> 0 \<and> (len seq mod block_size bm \<noteq> 1 \<or> free_block_ids bm \<noteq> [])))
   \<and> (\<forall>bm' seq'. may_append L bm seq = Inr (bm', seq') \<longrightarrow>
         length (free_block_ids bm') + (if len seq mod block_size bm = 1 then 1 else 0)
           = length (free_block_ids bm))"
proof -
  have a: "(can_append bm seq = Inr True) \<longleftrightarrow>
      (block_size bm \<noteq> 0 \<and> (len seq mod block_size bm \<noteq> 1 \<or> free_block_ids bm \<noteq> []))"
    by (auto simp: can_append_def Suc_le_eq)
  have b: "length (free_block_ids bm') + (if len seq mod block_size bm = 1 then 1 else 0)
           = length (free_block_ids bm)"
    if "may_append L bm seq = Inr (bm', seq')" for bm' seq'
    using that
    by (auto simp: may_append_def Let_def dest!: allocate_block_free_length
        split: if_splits list.splits sum.splits)
  show ?thesis using a b by blast
qed


theorem can_append_iff_witness:
  "can_append example_manager example_seq5 = Inr True
   \<and> len example_seq5 mod block_size example_manager = 1
   \<and> (\<exists>bm' seq'. may_append example_lib example_manager example_seq5 = Inr (bm', seq')
         \<and> length (free_block_ids bm') + 1 = length (free_block_ids example_manager))"
proof -
  have m: "len example_seq5 mod block_size example_manager = 1"
    by (simp add: len_def example_seq5_def example_manager_def)
  have f: "block_size example_manager \<noteq> 0 \<and> free_block_ids example_manager \<noteq> []"
    by (simp add: example_manager_def)
  have "isl (may_append example_lib example_manager example_seq5) = False"
    by (simp add: may_append_def example_manager_def example_seq5_def len_def
        allocate_block_def Block_reset_def)
  then obtain bm' seq' where
    r: "may_append example_lib example_manager example_seq5 = Inr (bm', seq')"
    by (cases "may_append example_lib example_manager example_seq5") auto
  from can_append_iff [of example_manager example_seq5 example_lib] m f r
  show ?thesis
    by auto
qed

end
